theory Spec2Isabelle
  imports Complex_Main
begin

section \<open>The Kalman smoother of stonesoup/smoother/kalman.py\<close>

subsection \<open>Data model\<close>

text \<open>
  The exceptions the smoother can raise: \<open>TypeError\<close> from \<open>_prediction\<close>,
  \<open>AttributeError\<close> when \<open>.matrix\<close> is looked up on \<open>None\<close>, \<open>LinAlgError\<close> from
  \<open>np.linalg.inv\<close>, and \<open>UnboundLocalError\<close> for a local variable read before it
  is assigned.
\<close>

datatype error = TypeError | AttributeError | LinAlgError | UnboundLocalError

text \<open>
  States. \<open>'a\<close> is the type of numpy arrays (state vectors and covariance matrices
  alike), \<open>'m\<close> the type of transition models. A \<open>GaussianStatePrediction\<close> is a
  \<open>Prediction\<close>, a \<open>GaussianStateUpdate\<close> is an \<open>Update\<close>; \<open>GaussianState\<close> stands for a
  state that is an instance of neither. The attribute \<open>transition_model\<close> of a
  prediction is \<open>None\<close> when the object has no such attribute (what \<open>hasattr\<close>
  tests). Timestamps are counted in microseconds, so that their difference is the
  \<open>timedelta\<close>.
\<close>

datatype ('a, 'm) state =
    GaussianStatePrediction (state_vector: 'a) (covar: 'a) (timestamp: int)
      (transition_model: "'m option")
  | GaussianStateUpdate (state_vector: 'a) (covar: 'a) (timestamp: int)
      (hypothesis: "('a, 'm) hypothesis")
  | GaussianState (state_vector: 'a) (covar: 'a) (timestamp: int)
and ('a, 'm) hypothesis =
    SingleHypothesis (prediction: "('a, 'm) state") (measurement: 'a)

type_synonym ('a, 'm) track = "('a, 'm) state list"

fun isinstance_Update :: "('a, 'm) state \<Rightarrow> bool" where
  "isinstance_Update (GaussianStateUpdate sv P t h) = True"
| "isinstance_Update (GaussianStatePrediction sv P t tm) = False"
| "isinstance_Update (GaussianState sv P t) = False"

fun isinstance_Prediction :: "('a, 'm) state \<Rightarrow> bool" where
  "isinstance_Prediction (GaussianStatePrediction sv P t tm) = True"
| "isinstance_Prediction (GaussianStateUpdate sv P t h) = False"
| "isinstance_Prediction (GaussianState sv P t) = False"

text \<open>\<open>getattr_transition_model p\<close> is \<open>None\<close> exactly when
  \<open>hasattr(p, "transition_model")\<close> is false.\<close>

fun getattr_transition_model :: "('a, 'm) state \<Rightarrow> 'm option" where
  "getattr_transition_model (GaussianStatePrediction sv P t tm) = tm"
| "getattr_transition_model (GaussianStateUpdate sv P t h) = None"
| "getattr_transition_model (GaussianState sv P t) = None"

text \<open>
  The operations the smoother takes from outside this file: the method \<open>matrix\<close> of
  a transition model, and numpy's \<open>@\<close>, \<open>.T\<close>, \<open>np.linalg.inv\<close>, \<open>+\<close> and \<open>-\<close> on
  arrays. Only the inversion can raise. The last field is the one thing about
  \<open>Prediction.from_state\<close> that neither the call nor the spec settles: the
  \<open>transition_model\<close> attribute, if any, of the prediction it builds from a state.
\<close>

record ('a, 'm) ops =
  matrix :: "'m \<Rightarrow> int \<Rightarrow> 'a"
  matmul :: "'a \<Rightarrow> 'a \<Rightarrow> 'a"
  ndarray_T :: "'a \<Rightarrow> 'a"
  linalg_inv :: "'a \<Rightarrow> error + 'a"
  ndarray_add :: "'a \<Rightarrow> 'a \<Rightarrow> 'a"
  ndarray_sub :: "'a \<Rightarrow> 'a \<Rightarrow> 'a"
  from_state_model :: "('a, 'm) state \<Rightarrow> 'm option"

text \<open>
  The two smoother classes. \<open>ExtendedKalmanSmoother\<close> subclasses \<open>KalmanSmoother\<close> and
  redeclares the property \<open>transition_model\<close> only. The property holds \<open>None\<close> or a
  model.
\<close>

datatype smoother_class = KalmanSmoother | ExtendedKalmanSmoother

record 'm smoother =
  cls :: smoother_class
  self_transition_model :: "'m option"

text \<open>
  Modelled from the spec: \<open>Update.from_state\<close> and \<open>Prediction.from_state\<close> (of
  stonesoup/types, not part of the sources at hand). The spec has the output element
  keep the kind of the original, with the new mean and covariance, the same timestamp
  and, for an update, the same hypothesis. The spec says nothing of the transition
  model of the new prediction, and lines 111 to 112 pass none: it is whatever
  \<open>from_state_model\<close> gives.
\<close>

fun Update_from_state ::
  "('a, 'm) state \<Rightarrow> 'a \<Rightarrow> 'a \<Rightarrow> int \<Rightarrow> ('a, 'm) hypothesis \<Rightarrow> ('a, 'm) state" where
  "Update_from_state state mean cov ts hyp = GaussianStateUpdate mean cov ts hyp"

fun Prediction_from_state ::
  "('a, 'm) ops \<Rightarrow> ('a, 'm) state \<Rightarrow> 'a \<Rightarrow> 'a \<Rightarrow> int \<Rightarrow> ('a, 'm) state" where
  "Prediction_from_state np state mean cov ts =
     GaussianStatePrediction mean cov ts (from_state_model np state)"

subsection \<open>The methods of KalmanSmoother\<close>

fun KalmanSmoother_prediction :: "('a, 'm) state \<Rightarrow> error + ('a, 'm) state" where
  "KalmanSmoother_prediction (GaussianStatePrediction sv P t tm) =
     Inr (GaussianStatePrediction sv P t tm)"
| "KalmanSmoother_prediction (GaussianStateUpdate sv P t h) = Inr (prediction h)"
| "KalmanSmoother_prediction (GaussianState sv P t) = Inl TypeError"

definition KalmanSmoother_transition_model ::
  "'m smoother \<Rightarrow> ('a, 'm) state \<Rightarrow> error + 'm option" where
  "KalmanSmoother_transition_model self state =
     (case KalmanSmoother_prediction state of
        Inl e \<Rightarrow> Inl e
      | Inr p \<Rightarrow>
          (case getattr_transition_model p of
             Some m \<Rightarrow> Inr (Some m)
           | None \<Rightarrow> Inr (self_transition_model self)))"

text \<open>The local variables of \<open>smooth\<close>; \<open>None\<close> is a variable not yet assigned.\<close>

record ('a, 'm) frame =
  firststate :: bool
  prev_state :: "('a, 'm) state option"
  prediction_var :: "('a, 'm) state option"
  smoothed_track :: "('a, 'm) state list"

text \<open>Lines 94 to 112: the \<open>else\<close> branch of the loop body, which computes the new
  \<open>prev_state\<close> from the bound \<open>prev_state\<close> and \<open>prediction\<close>.\<close>

definition smooth_else ::
  "'m smoother \<Rightarrow> ('a, 'm) ops \<Rightarrow> ('a, 'm) state \<Rightarrow> ('a, 'm) state \<Rightarrow> ('a, 'm) state
     \<Rightarrow> error + ('a, 'm) state" where
  "smooth_else self np prev pred state =
     (let time_interval = timestamp prev - timestamp state in
      case KalmanSmoother_transition_model self state of
        Inl e \<Rightarrow> Inl e
      | Inr None \<Rightarrow> Inl AttributeError
      | Inr (Some tm) \<Rightarrow>
          (let transition_matrix = matrix np tm time_interval in
           case linalg_inv np (covar pred) of
             Inl e \<Rightarrow> Inl e
           | Inr inv_covar \<Rightarrow>
               (let ksmooth_gain =
                      matmul np (matmul np (covar state) (ndarray_T np transition_matrix))
                        inv_covar;
                    smooth_mean =
                      ndarray_add np (state_vector state)
                        (matmul np ksmooth_gain
                           (ndarray_sub np (state_vector prev) (state_vector pred)));
                    smooth_covar =
                      ndarray_add np (covar state)
                        (matmul np
                           (matmul np ksmooth_gain (ndarray_sub np (covar prev) (covar pred)))
                           (ndarray_T np ksmooth_gain))
                in Inr (if isinstance_Update state
                        then Update_from_state state smooth_mean smooth_covar
                               (timestamp state) (hypothesis state)
                        else if isinstance_Prediction state
                        then Prediction_from_state np state smooth_mean smooth_covar
                               (timestamp state)
                        else prev))))"

text \<open>One iteration of \<open>for state in reversed(track)\<close>, lines 88 to 117.\<close>

definition smooth_body ::
  "'m smoother \<Rightarrow> ('a, 'm) ops \<Rightarrow> ('a, 'm) frame \<Rightarrow> ('a, 'm) state
     \<Rightarrow> error + ('a, 'm) frame" where
  "smooth_body self np fr state =
     (case
        (if firststate fr
         then Inr (fr\<lparr>firststate := False, prev_state := Some state,
                     smoothed_track := smoothed_track fr @ [state]\<rparr>)
         else
           (case prev_state fr of
              None \<Rightarrow> Inl UnboundLocalError
            | Some prev \<Rightarrow>
                (case prediction_var fr of
                   None \<Rightarrow>
                     (case KalmanSmoother_transition_model self state of
                        Inl e \<Rightarrow> Inl e
                      | Inr None \<Rightarrow> Inl AttributeError
                      | Inr (Some tm) \<Rightarrow> Inl UnboundLocalError)
                 | Some pred \<Rightarrow>
                     (case smooth_else self np prev pred state of
                        Inl e \<Rightarrow> Inl e
                      | Inr new \<Rightarrow>
                          Inr (fr\<lparr>prev_state := Some new,
                                 smoothed_track := smoothed_track fr @ [new]\<rparr>)))))
      of
        Inl e \<Rightarrow> Inl e
      | Inr fr' \<Rightarrow>
          (case KalmanSmoother_prediction state of
             Inl e \<Rightarrow> Inl e
           | Inr p \<Rightarrow> Inr (fr'\<lparr>prediction_var := Some p\<rparr>)))"

fun smooth_loop ::
  "'m smoother \<Rightarrow> ('a, 'm) ops \<Rightarrow> ('a, 'm) frame \<Rightarrow> ('a, 'm) state list
     \<Rightarrow> error + ('a, 'm) frame" where
  "smooth_loop self np fr [] = Inr fr"
| "smooth_loop self np fr (state # rest) =
     (case smooth_body self np fr state of
        Inl e \<Rightarrow> Inl e
      | Inr fr' \<Rightarrow> smooth_loop self np fr' rest)"

definition KalmanSmoother_smooth ::
  "'m smoother \<Rightarrow> ('a, 'm) ops \<Rightarrow> ('a, 'm) track \<Rightarrow> error + ('a, 'm) track" where
  "KalmanSmoother_smooth self np track =
     (case smooth_loop self np
             \<lparr>firststate = True, prev_state = None, prediction_var = None,
              smoothed_track = []\<rparr>
             (rev track) of
        Inl e \<Rightarrow> Inl e
      | Inr fr \<Rightarrow> Inr (rev (smoothed_track fr)))"

text \<open>\<open>track_smooth(self, *args, **kwargs)\<close> has the body \<open>pass\<close>: it returns \<open>None\<close>.\<close>

definition KalmanSmoother_track_smooth ::
  "'m smoother \<Rightarrow> 'x list \<Rightarrow> (string \<times> 'x) list \<Rightarrow> 'r option" where
  "KalmanSmoother_track_smooth self args kwargs = None"

text \<open>
  Method lookup on an instance. \<open>ExtendedKalmanSmoother\<close> defines neither method, so
  both are found in \<open>KalmanSmoother\<close>.
\<close>

fun smooth ::
  "'m smoother \<Rightarrow> ('a, 'm) ops \<Rightarrow> ('a, 'm) track \<Rightarrow> error + ('a, 'm) track" where
  "smooth self np track =
     (case cls self of
        KalmanSmoother \<Rightarrow> KalmanSmoother_smooth self np track
      | ExtendedKalmanSmoother \<Rightarrow> KalmanSmoother_smooth self np track)"

fun track_smooth :: "'m smoother \<Rightarrow> 'x list \<Rightarrow> (string \<times> 'x) list \<Rightarrow> 'r option" where
  "track_smooth self args kwargs =
     (case cls self of
        KalmanSmoother \<Rightarrow> KalmanSmoother_track_smooth self args kwargs
      | ExtendedKalmanSmoother \<Rightarrow> KalmanSmoother_track_smooth self args kwargs)"

subsection \<open>A one-dimensional instance\<close>

text \<open>
  Arrays of shape 1 by 1 over the rationals, and transition models \<open>x \<mapsto> (1 + a \<Delta>t) x\<close>
  given by their rate \<open>a\<close>. The inverse of a singular matrix raises, and of no other.
  A prediction built by \<open>from_state\<close> has no model attached.
\<close>

definition scalar_ops :: "(rat, rat) ops" where
  "scalar_ops =
     \<lparr>matrix = (\<lambda>a dt. 1 + a * of_int dt),
      matmul = (\<lambda>x y. x * y),
      ndarray_T = (\<lambda>x. x),
      linalg_inv = (\<lambda>x. if x = 0 then Inl LinAlgError else Inr (1 / x)),
      ndarray_add = (\<lambda>x y. x + y),
      ndarray_sub = (\<lambda>x y. x - y),
      from_state_model = (\<lambda>state. None)\<rparr>"

text \<open>
  A smoother with no default model, and a forward track of two states one time unit
  apart: a prediction carrying the model of rate 1, then an update whose hypothesis
  holds the prediction made with the model of rate 2.
\<close>

definition example_smoother :: "rat smoother" where
  "example_smoother = \<lparr>cls = KalmanSmoother, self_transition_model = None\<rparr>"

definition example_update :: "(rat, rat) state" where
  "example_update =
     GaussianStateUpdate 4 5 1 (SingleHypothesis (GaussianStatePrediction 3 10 1 (Some 2)) 4)"

definition example_track :: "(rat, rat) track" where
  "example_track = [GaussianStatePrediction 1 1 0 (Some 1), example_update]"

text \<open>A prediction with no model attached, one time unit before the track.\<close>

definition example_unresolved :: "(rat, rat) state" where
  "example_unresolved = GaussianStatePrediction 0 1 (- 1) None"

text \<open>
  The example track with the covariance of the later prediction made singular, and
  with that covariance made \<open>10\<^sup>-\<^sup>3\<^sup>0\<close>.
\<close>

definition example_singular :: "(rat, rat) track" where
  "example_singular =
     [GaussianStatePrediction 1 1 0 (Some 1),
      GaussianStateUpdate 4 0 1 (SingleHypothesis (GaussianStatePrediction 3 0 1 (Some 2)) 4)]"

definition example_nearly_singular :: "(rat, rat) track" where
  "example_nearly_singular =
     [GaussianStatePrediction 1 1 0 (Some 1),
      GaussianStateUpdate 4 (1 / (2 * 10 ^ 30)) 1
        (SingleHypothesis (GaussianStatePrediction 3 (1 / 10 ^ 30) 1 (Some 2)) 4)]"

section \<open>Properties\<close>

subsection \<open>The class of the smoother is never consulted\<close>

lemma transition_model_cls:
  "KalmanSmoother_transition_model (self\<lparr>cls := c\<rparr>) state
     = KalmanSmoother_transition_model self state"
  by (simp add: KalmanSmoother_transition_model_def split: sum.splits option.splits)

lemma smooth_else_cls:
  "smooth_else (self\<lparr>cls := c\<rparr>) np prev pred state = smooth_else self np prev pred state"
  unfolding smooth_else_def transition_model_cls by (rule refl)

lemma smooth_body_cls:
  "smooth_body (self\<lparr>cls := c\<rparr>) np fr state = smooth_body self np fr state"
  unfolding smooth_body_def smooth_else_cls transition_model_cls by (rule refl)

lemma smooth_loop_cls:
  "smooth_loop (self\<lparr>cls := c\<rparr>) np fr states = smooth_loop self np fr states"
  by (induction states arbitrary: fr) (simp_all add: smooth_body_cls split: sum.splits)

subsection \<open>The loop, one state at a time\<close>

lemma smooth_loop_append:
  "smooth_loop self np fr (xs @ ys) =
     (case smooth_loop self np fr xs of
        Inl e \<Rightarrow> Inl e
      | Inr fr' \<Rightarrow> smooth_loop self np fr' ys)"
  by (induction xs arbitrary: fr) (simp_all split: sum.splits)

lemma transition_model_prediction:
  "KalmanSmoother_transition_model self state = Inr tm \<Longrightarrow>
     \<exists>p. KalmanSmoother_prediction state = Inr p"
  by (auto simp: KalmanSmoother_transition_model_def split: sum.splits)

lemma smooth_else_prediction:
  "smooth_else self np prev pred state = Inr new \<Longrightarrow>
     \<exists>p. KalmanSmoother_prediction state = Inr p"
  by (auto simp: smooth_else_def Let_def split: sum.splits option.splits
           dest: transition_model_prediction)

lemma smooth_body_first:
  "firststate fr \<Longrightarrow>
   smooth_body self np fr state =
     (case KalmanSmoother_prediction state of
        Inl e \<Rightarrow> Inl e
      | Inr p \<Rightarrow> Inr (fr\<lparr>firststate := False, prev_state := Some state,
                         smoothed_track := smoothed_track fr @ [state],
                         prediction_var := Some p\<rparr>))"
  by (simp add: smooth_body_def split: sum.splits)

lemma smooth_body_later:
  "\<not> firststate fr \<Longrightarrow> prev_state fr = Some prev \<Longrightarrow> prediction_var fr = Some pred \<Longrightarrow>
   smooth_body self np fr state =
     (case smooth_else self np prev pred state of
        Inl e \<Rightarrow> Inl e
      | Inr new \<Rightarrow>
          (case KalmanSmoother_prediction state of
             Inl e \<Rightarrow> Inl e
           | Inr p \<Rightarrow> Inr (fr\<lparr>prev_state := Some new,
                              smoothed_track := smoothed_track fr @ [new],
                              prediction_var := Some p\<rparr>)))"
  by (simp add: smooth_body_def split: sum.splits)

lemma smooth_body_result:
  assumes "smooth_body self np fr state = Inr fr'"
  shows "\<not> firststate fr'
    \<and> (\<exists>new. prev_state fr' = Some new \<and> smoothed_track fr' = smoothed_track fr @ [new])
    \<and> (\<exists>p. KalmanSmoother_prediction state = Inr p \<and> prediction_var fr' = Some p)"
  using assms
  by (auto simp: smooth_body_def split: if_splits sum.splits option.splits)

lemma smooth_loop_snoc_result:
  assumes "smooth_loop self np fr0 (xs @ [x]) = Inr fr"
  shows "\<not> firststate fr
    \<and> (\<exists>new tr. prev_state fr = Some new \<and> smoothed_track fr = tr @ [new])
    \<and> (\<exists>p. KalmanSmoother_prediction x = Inr p \<and> prediction_var fr = Some p)"
proof -
  from assms obtain fr1 where "smooth_body self np fr1 x = Inr fr"
    by (auto simp: smooth_loop_append split: sum.splits)
  from smooth_body_result [OF this] show ?thesis by blast
qed

lemma smooth_Nil: "KalmanSmoother_smooth self np [] = Inr []"
  by (simp add: KalmanSmoother_smooth_def)

lemma smooth_single:
  "KalmanSmoother_smooth self np [s] =
     (case KalmanSmoother_prediction s of Inl e \<Rightarrow> Inl e | Inr p \<Rightarrow> Inr [s])"
  by (simp add: KalmanSmoother_smooth_def smooth_body_first split: sum.splits)

lemma smooth_Cons:
  assumes "rest \<noteq> []"
  shows "KalmanSmoother_smooth self np (s # rest) =
     (case KalmanSmoother_smooth self np rest of
        Inl e \<Rightarrow> Inl e
      | Inr out \<Rightarrow>
          (case KalmanSmoother_prediction (hd rest) of
             Inl e \<Rightarrow> Inl e
           | Inr p \<Rightarrow>
               (case smooth_else self np (hd out) p s of
                  Inl e \<Rightarrow> Inl e
                | Inr new \<Rightarrow> Inr (new # out))))"
proof -
  let ?init = "\<lparr>firststate = True, prev_state = None, prediction_var = None,
                 smoothed_track = []\<rparr> :: ('a, 'b) frame"
  from assms have rv: "rev rest = butlast (rev rest) @ [hd rest]"
    by (metis append_butlast_last_id last_rev rev_is_Nil_conv)
  have split_loop: "smooth_loop self np ?init (rev (s # rest)) =
      (case smooth_loop self np ?init (rev rest) of
         Inl e \<Rightarrow> Inl e
       | Inr fr \<Rightarrow> smooth_body self np fr s)"
    by (simp add: smooth_loop_append split: sum.splits)
  show ?thesis
  proof (cases "smooth_loop self np ?init (rev rest)")
    case (Inl e)
    then show ?thesis
      by (simp add: KalmanSmoother_smooth_def split_loop del: rev.simps)
  next
    case (Inr fr)
    then have "smooth_loop self np ?init (butlast (rev rest) @ [hd rest]) = Inr fr"
      using rv by simp
    from smooth_loop_snoc_result [OF this]
    obtain new tr p where fr: "\<not> firststate fr" "prev_state fr = Some new"
        "smoothed_track fr = tr @ [new]"
        "KalmanSmoother_prediction (hd rest) = Inr p" "prediction_var fr = Some p"
      by blast
    have out: "KalmanSmoother_smooth self np rest = Inr (new # rev tr)"
      using Inr fr(3) by (simp add: KalmanSmoother_smooth_def)
    have lhs: "KalmanSmoother_smooth self np (s # rest) =
        (case smooth_body self np fr s of
           Inl e \<Rightarrow> Inl e
         | Inr fr' \<Rightarrow> Inr (rev (smoothed_track fr')))"
      unfolding KalmanSmoother_smooth_def split_loop Inr by simp
    have rhs: "(case KalmanSmoother_smooth self np rest of
        Inl e \<Rightarrow> Inl e
      | Inr out \<Rightarrow>
          (case KalmanSmoother_prediction (hd rest) of
             Inl e \<Rightarrow> Inl e
           | Inr p \<Rightarrow>
               (case smooth_else self np (hd out) p s of
                  Inl e \<Rightarrow> Inl e
                | Inr new \<Rightarrow> Inr (new # out)))) =
        (case smooth_else self np new p s of
           Inl e \<Rightarrow> Inl e
         | Inr new' \<Rightarrow> Inr (new' # new # rev tr))"
      by (simp add: out fr(4))
    show ?thesis
    proof (cases "smooth_else self np new p s")
      case (Inl e)
      then show ?thesis
        unfolding lhs rhs using fr by (simp add: smooth_body_later)
    next
      case new': (Inr new')
      then obtain p' where "KalmanSmoother_prediction s = Inr p'"
        using smooth_else_prediction by blast
      then show ?thesis
        unfolding lhs rhs using fr new' by (simp add: smooth_body_later)
    qed
  qed
qed

lemma smooth_pointwise:
  assumes "KalmanSmoother_smooth self np track = Inr out"
  shows "length out = length track
    \<and> (track \<noteq> [] \<longrightarrow>
          last out = last track \<and> (\<exists>p. KalmanSmoother_prediction (last track) = Inr p))
    \<and> (\<forall>k. Suc k < length track \<longrightarrow>
          (\<exists>p. KalmanSmoother_prediction (track ! Suc k) = Inr p
             \<and> smooth_else self np (out ! Suc k) p (track ! k) = Inr (out ! k)))"
  using assms
proof (induction track arbitrary: out)
  case Nil
  then show ?case by (simp add: smooth_Nil)
next
  case (Cons s rest)
  show ?case
  proof (cases "rest = []")
    case True
    with Cons.prems show ?thesis
      by (auto simp: smooth_single split: sum.splits)
  next
    case False
    with Cons.prems obtain out' p new where
      rest: "KalmanSmoother_smooth self np rest = Inr out'"
      and p: "KalmanSmoother_prediction (hd rest) = Inr p"
      and new: "smooth_else self np (hd out') p s = Inr new"
      and out: "out = new # out'"
      by (auto simp: smooth_Cons split: sum.splits)
    note ih = Cons.IH [OF rest]
    from ih False have len: "length out' = length rest" and ne: "out' \<noteq> []"
      by auto
    have hd0: "hd rest = rest ! 0" "hd out' = out' ! 0"
      using False ne by (simp_all add: hd_conv_nth)
    have step: "\<exists>q. KalmanSmoother_prediction ((s # rest) ! Suc k) = Inr q
         \<and> smooth_else self np (out ! Suc k) q ((s # rest) ! k) = Inr (out ! k)"
      if "Suc k < length (s # rest)" for k
    proof (cases k)
      case 0
      then show ?thesis using p new out hd0 by simp
    next
      case (Suc j)
      with that have "Suc j < length rest" by simp
      with ih show ?thesis using Suc out by simp
    qed
    show ?thesis
      using len ih False ne out step by simp
  qed
qed

lemma prediction_Inr_iff:
  "(\<exists>p. KalmanSmoother_prediction s = Inr p)
     \<longleftrightarrow> isinstance_Update s \<or> isinstance_Prediction s"
  by (cases s) simp_all

lemma smooth_else_Inr:
  assumes "smooth_else self np prev pred state = Inr new"
  shows "\<exists>tm ic. KalmanSmoother_transition_model self state = Inr (Some tm)
    \<and> linalg_inv np (covar pred) = Inr ic
    \<and> state_vector new =
        ndarray_add np (state_vector state)
          (matmul np
             (matmul np
                (matmul np (covar state)
                   (ndarray_T np (matrix np tm (timestamp prev - timestamp state))))
                ic)
             (ndarray_sub np (state_vector prev) (state_vector pred)))
    \<and> covar new =
        ndarray_add np (covar state)
          (matmul np
             (matmul np
                (matmul np
                   (matmul np (covar state)
                      (ndarray_T np (matrix np tm (timestamp prev - timestamp state))))
                   ic)
                (ndarray_sub np (covar prev) (covar pred)))
             (ndarray_T np
                (matmul np
                   (matmul np (covar state)
                      (ndarray_T np (matrix np tm (timestamp prev - timestamp state))))
                   ic)))"
proof -
  from assms obtain p where "KalmanSmoother_prediction state = Inr p"
    using smooth_else_prediction by blast
  then have kind: "isinstance_Update state \<or> isinstance_Prediction state"
    using prediction_Inr_iff by blast
  from assms kind show ?thesis
    by (cases state)
       (auto simp: smooth_else_def Let_def split: sum.splits option.splits)
qed

lemma smooth_else_kind:
  assumes "smooth_else self np prev pred state = Inr new"
  shows "case state of
      GaussianStatePrediction sv P t tm \<Rightarrow>
        (\<exists>sv' P' tm'. new = GaussianStatePrediction sv' P' t tm')
    | GaussianStateUpdate sv P t h \<Rightarrow> (\<exists>sv' P'. new = GaussianStateUpdate sv' P' t h)
    | GaussianState sv P t \<Rightarrow> False"
  using assms
  by (cases state)
     (auto simp: smooth_else_def Let_def KalmanSmoother_transition_model_def
           split: sum.splits option.splits)

lemma smooth_else_succeeds:
  assumes "KalmanSmoother_transition_model self state = Inr (Some tm)"
      and "linalg_inv np (covar pred) = Inr ic"
  shows "\<exists>new. smooth_else self np prev pred state = Inr new"
  using assms by (simp add: smooth_else_def Let_def)

lemma smooth_succeeds:
  assumes "\<forall>s \<in> set track. isinstance_Update s \<or> isinstance_Prediction s"
      and "\<forall>k. Suc k < length track \<longrightarrow>
             (\<exists>tm. KalmanSmoother_transition_model self (track ! k) = Inr (Some tm))"
      and "\<forall>k p. Suc k < length track \<longrightarrow>
             KalmanSmoother_prediction (track ! Suc k) = Inr p \<longrightarrow>
             (\<exists>ic. linalg_inv np (covar p) = Inr ic)"
  shows "\<exists>out. KalmanSmoother_smooth self np track = Inr out"
  using assms
proof (induction track)
  case Nil
  then show ?case by (simp add: smooth_Nil)
next
  case (Cons s rest)
  show ?case
  proof (cases "rest = []")
    case True
    from Cons.prems(1) obtain p where "KalmanSmoother_prediction s = Inr p"
      using prediction_Inr_iff [of s] by auto
    with True show ?thesis by (simp add: smooth_single)
  next
    case False
    have m: "\<forall>k. Suc k < length rest \<longrightarrow>
        (\<exists>tm. KalmanSmoother_transition_model self (rest ! k) = Inr (Some tm))"
    proof (intro allI impI)
      fix k assume "Suc k < length rest"
      with Cons.prems(2) [rule_format, of "Suc k"] show
        "\<exists>tm. KalmanSmoother_transition_model self (rest ! k) = Inr (Some tm)"
        by simp
    qed
    have i: "\<forall>k p. Suc k < length rest \<longrightarrow>
        KalmanSmoother_prediction (rest ! Suc k) = Inr p \<longrightarrow>
        (\<exists>ic. linalg_inv np (covar p) = Inr ic)"
    proof (intro allI impI)
      fix k p assume "Suc k < length rest" "KalmanSmoother_prediction (rest ! Suc k) = Inr p"
      with Cons.prems(3) [rule_format, of "Suc k" p] show
        "\<exists>ic. linalg_inv np (covar p) = Inr ic"
        by simp
    qed
    from Cons.IH [OF _ m i] Cons.prems(1) obtain out' where
      out': "KalmanSmoother_smooth self np rest = Inr out'"
      by auto
    from False Cons.prems(1) obtain p where p: "KalmanSmoother_prediction (hd rest) = Inr p"
      using prediction_Inr_iff [of "hd rest"] by auto
    from False have hd0: "hd rest = rest ! 0" by (simp add: hd_conv_nth)
    from Cons.prems(3) [rule_format, of 0 p] False p hd0 obtain ic where
      "linalg_inv np (covar p) = Inr ic"
      by auto
    moreover from Cons.prems(2) [rule_format, of 0] False obtain tm where
      "KalmanSmoother_transition_model self s = Inr (Some tm)"
      by auto
    ultimately obtain new where "smooth_else self np (hd out') p s = Inr new"
      using smooth_else_succeeds [of self s tm np p ic "hd out'"] by auto
    with False out' p show ?thesis by (simp add: smooth_Cons)
  qed
qed

lemma smooth_elem:
  assumes "KalmanSmoother_smooth self np track = Inr out" and "k < length track"
  shows "case track ! k of
      GaussianStatePrediction sv P t tm \<Rightarrow>
        (\<exists>sv' P' tm'. out ! k = GaussianStatePrediction sv' P' t tm')
    | GaussianStateUpdate sv P t h \<Rightarrow> (\<exists>sv' P'. out ! k = GaussianStateUpdate sv' P' t h)
    | GaussianState sv P t \<Rightarrow> False"
proof (cases "Suc k < length track")
  case True
  with smooth_pointwise [OF assms(1)] obtain p where
    "smooth_else self np (out ! Suc k) p (track ! k) = Inr (out ! k)"
    by blast
  then show ?thesis by (rule smooth_else_kind)
next
  case False
  with assms(2) have k: "k = length track - 1" and ne: "track \<noteq> []" by auto
  from smooth_pointwise [OF assms(1)] ne obtain p where
    len: "length out = length track" and l: "last out = last track"
    and p: "KalmanSmoother_prediction (last track) = Inr p"
    by blast
  from len ne have "out \<noteq> []" by auto
  with len ne k have "out ! k = last out" "track ! k = last track"
    by (simp_all add: last_conv_nth)
  with l p have eq: "out ! k = track ! k"
    and kind: "isinstance_Update (track ! k) \<or> isinstance_Prediction (track ! k)"
    using prediction_Inr_iff [of "track ! k"] by auto
  from kind show ?thesis unfolding eq by (cases "track ! k") simp_all
qed

lemma smooth_timestamp:
  assumes "KalmanSmoother_smooth self np track = Inr out" and "k < length track"
  shows "timestamp (out ! k) = timestamp (track ! k)"
  using smooth_elem [OF assms] by (cases "track ! k") auto

lemma smooth_gaussian:
  assumes "KalmanSmoother_smooth self np track = Inr out" and "k < length track"
  shows "\<exists>p. KalmanSmoother_prediction (track ! k) = Inr p"
  using smooth_elem [OF assms] by (cases "track ! k") auto

lemma smooth_append_error:
  assumes "KalmanSmoother_smooth self np rest = Inl e"
  shows "KalmanSmoother_smooth self np (pre @ rest) = Inl e"
proof (induction pre)
  case Nil
  from assms show ?case by simp
next
  case (Cons x xs)
  from assms have "rest \<noteq> []" by (auto simp: smooth_Nil)
  then have "xs @ rest \<noteq> []" by simp
  from smooth_Cons [OF this] Cons.IH show ?case by simp
qed

lemma smooth_Cons_unresolved:
  assumes "rest \<noteq> []"
      and "KalmanSmoother_smooth self np rest = Inr out'"
      and "KalmanSmoother_transition_model self s = Inr None"
  shows "KalmanSmoother_smooth self np (s # rest) = Inl AttributeError"
proof -
  from assms(1) have "0 < length rest" by simp
  from smooth_gaussian [OF assms(2) this] assms(1) obtain p where
    "KalmanSmoother_prediction (hd rest) = Inr p"
    by (auto simp: hd_conv_nth)
  moreover have "smooth_else self np (hd out') p s = Inl AttributeError"
    using assms(3) by (simp add: smooth_else_def)
  ultimately show ?thesis
    using assms(1,2) by (simp add: smooth_Cons)
qed

lemma example_gaussian:
  "\<forall>s \<in> set example_track. isinstance_Update s \<or> isinstance_Prediction s"
  by (simp add: example_track_def example_update_def)

lemma example_models:
  "\<forall>k. Suc k < length example_track \<longrightarrow>
     (\<exists>tm. KalmanSmoother_transition_model example_smoother (example_track ! k)
             = Inr (Some tm))"
  by (simp add: example_track_def KalmanSmoother_transition_model_def)

lemma example_inversions:
  "\<forall>k p. Suc k < length example_track \<longrightarrow>
     KalmanSmoother_prediction (example_track ! Suc k) = Inr p \<longrightarrow>
     (\<exists>ic. linalg_inv scalar_ops (covar p) = Inr ic)"
  by (auto simp: example_track_def example_update_def scalar_ops_def
        intro: exI [of _ "1 / 10"])

lemma transition_model_Some:
  assumes "KalmanSmoother_transition_model self state = Inr (Some tm)"
  shows "\<exists>pk. KalmanSmoother_prediction state = Inr pk
    \<and> (getattr_transition_model pk = Some tm
        \<or> getattr_transition_model pk = None \<and> self_transition_model self = Some tm)"
  using assms
  by (auto simp: KalmanSmoother_transition_model_def split: sum.splits option.splits)

lemma example_smooth:
  "KalmanSmoother_smooth example_smoother scalar_ops example_track =
     Inr [GaussianStatePrediction (6 / 5) (4 / 5) 0 None, example_update]"
  by (simp add: KalmanSmoother_smooth_def smooth_body_def smooth_else_def
        KalmanSmoother_transition_model_def scalar_ops_def example_smoother_def
        example_track_def example_update_def Let_def)

lemma smooth_else_inv_cong:
  assumes "f (covar pred) = g (covar pred)"
  shows "smooth_else self (np\<lparr>linalg_inv := f\<rparr>) prev pred state
       = smooth_else self (np\<lparr>linalg_inv := g\<rparr>) prev pred state"
  using assms by (simp add: smooth_else_def Let_def split: sum.splits option.splits)

lemma smooth_inv_cong:
  assumes "\<forall>k p. Suc k < length track \<longrightarrow>
             KalmanSmoother_prediction (track ! Suc k) = Inr p \<longrightarrow> f (covar p) = g (covar p)"
  shows "KalmanSmoother_smooth self (np\<lparr>linalg_inv := f\<rparr>) track
       = KalmanSmoother_smooth self (np\<lparr>linalg_inv := g\<rparr>) track"
  using assms
proof (induction track)
  case Nil
  show ?case by (simp add: smooth_Nil)
next
  case (Cons s rest)
  show ?case
  proof (cases "rest = []")
    case True
    then show ?thesis by (simp add: smooth_single)
  next
    case False
    have "\<forall>k p. Suc k < length rest \<longrightarrow>
        KalmanSmoother_prediction (rest ! Suc k) = Inr p \<longrightarrow> f (covar p) = g (covar p)"
    proof (intro allI impI)
      fix k p assume "Suc k < length rest" "KalmanSmoother_prediction (rest ! Suc k) = Inr p"
      with Cons.prems [rule_format, of "Suc k" p] show "f (covar p) = g (covar p)" by simp
    qed
    from Cons.IH [OF this] have ih:
      "KalmanSmoother_smooth self (np\<lparr>linalg_inv := f\<rparr>) rest
         = KalmanSmoother_smooth self (np\<lparr>linalg_inv := g\<rparr>) rest" .
    from False have hd0: "hd rest = rest ! 0" by (simp add: hd_conv_nth)
    have step: "smooth_else self (np\<lparr>linalg_inv := f\<rparr>) prev p s
        = smooth_else self (np\<lparr>linalg_inv := g\<rparr>) prev p s"
      if "KalmanSmoother_prediction (hd rest) = Inr p" for prev p
    proof (rule smooth_else_inv_cong)
      from Cons.prems [rule_format, of 0 p] False that hd0
      show "f (covar p) = g (covar p)" by simp
    qed
    show ?thesis
      unfolding smooth_Cons [OF False] ih
      by (auto split: sum.splits simp: step)
  qed
qed

lemma smooth_inversion_error:
  assumes "Suc k < length track"
      and "KalmanSmoother_smooth self np (drop (Suc k) track) = Inr out'"
      and "KalmanSmoother_transition_model self (track ! k) = Inr (Some tm)"
      and "KalmanSmoother_prediction (track ! Suc k) = Inr p"
      and "linalg_inv np (covar p) = Inl e"
  shows "KalmanSmoother_smooth self np track = Inl e"
proof -
  from assms(1) have ne: "drop (Suc k) track \<noteq> []" by simp
  from assms(1) have hd: "hd (drop (Suc k) track) = track ! Suc k"
    by (simp add: hd_drop_conv_nth)
  have "smooth_else self np (hd out') p (track ! k) = Inl e"
    using assms(3,5) by (simp add: smooth_else_def)
  with assms(2,4) hd
  have "KalmanSmoother_smooth self np (track ! k # drop (Suc k) track) = Inl e"
    by (simp add: smooth_Cons [OF ne])
  from smooth_append_error [OF this, of "take k track"] assms(1) show ?thesis
    by (simp add: id_take_nth_drop [symmetric])
qed

lemma smooth_inversion_accepted:
  assumes "Suc k < length track"
      and "KalmanSmoother_smooth self np (drop (Suc k) track) = Inr out'"
      and "KalmanSmoother_transition_model self (track ! k) = Inr (Some tm)"
      and "KalmanSmoother_prediction (track ! Suc k) = Inr p"
      and "linalg_inv np (covar p) = Inr ic"
  shows "\<exists>new. KalmanSmoother_smooth self np (drop k track) = Inr (new # out')"
proof -
  from assms(1) have ne: "drop (Suc k) track \<noteq> []" by simp
  from assms(1) have hd: "hd (drop (Suc k) track) = track ! Suc k"
    by (simp add: hd_drop_conv_nth)
  from smooth_else_succeeds [OF assms(3,5)] obtain new where
    "smooth_else self np (hd out') p (track ! k) = Inr new"
    by blast
  with assms(2,4) hd
  have "KalmanSmoother_smooth self np (track ! k # drop (Suc k) track) = Inr (new # out')"
    by (simp add: smooth_Cons [OF ne])
  with assms(1) show ?thesis by (simp add: Cons_nth_drop_Suc)
qed

subsection \<open>The claims about the backward recursion\<close>

text \<open>
  C1. On a track of Gaussian predictions and updates on which every non-latest state
  resolves a transition model and every inversion succeeds, \<open>smooth\<close> returns a track
  \<open>out\<close> of the same length, and for each non-latest element \<open>S\<^sub>k = track ! k\<close>: with
  \<open>tm\<close> the model resolved at that step, \<open>p\<close> the prediction associated with the
  original later state \<open>track ! Suc k\<close> and \<open>ic\<close> the inverse of its covariance, the gain
  is \<open>G = covar S\<^sub>k @ T.T @ ic\<close> for \<open>T = matrix tm \<Delta>t\<close>,
  \<open>\<Delta>t = timestamp (track ! Suc k) - timestamp S\<^sub>k\<close>, the output mean is
  \<open>\<mu>\<^sub>k + G @ (\<mu>' - \<mu>\<^sub>p)\<close> and the output covariance is
  \<open>\<Sigma>\<^sub>k + G @ (\<Sigma>' - \<Sigma>\<^sub>p) @ G.T\<close>, where \<open>\<mu>'\<close> and \<open>\<Sigma>'\<close> are the mean and covariance of the
  already smoothed later state \<open>out ! Suc k\<close>.
\<close>

theorem smooth_gain_mean_covar:
  assumes "\<forall>s \<in> set track. isinstance_Update s \<or> isinstance_Prediction s"
      and "\<forall>k. Suc k < length track \<longrightarrow>
             (\<exists>tm. KalmanSmoother_transition_model self (track ! k) = Inr (Some tm))"
      and "\<forall>k p. Suc k < length track \<longrightarrow>
             KalmanSmoother_prediction (track ! Suc k) = Inr p \<longrightarrow>
             (\<exists>ic. linalg_inv np (covar p) = Inr ic)"
  shows "\<exists>out. KalmanSmoother_smooth self np track = Inr out
    \<and> length out = length track
    \<and> (\<forall>k. Suc k < length track \<longrightarrow>
         (\<exists>tm p ic.
            KalmanSmoother_transition_model self (track ! k) = Inr (Some tm)
          \<and> KalmanSmoother_prediction (track ! Suc k) = Inr p
          \<and> linalg_inv np (covar p) = Inr ic
          \<and> (let T = matrix np tm (timestamp (track ! Suc k) - timestamp (track ! k));
                  G = matmul np (matmul np (covar (track ! k)) (ndarray_T np T)) ic
              in state_vector (out ! k) =
                   ndarray_add np (state_vector (track ! k))
                     (matmul np G
                        (ndarray_sub np (state_vector (out ! Suc k)) (state_vector p)))
               \<and> covar (out ! k) =
                   ndarray_add np (covar (track ! k))
                     (matmul np
                        (matmul np G (ndarray_sub np (covar (out ! Suc k)) (covar p)))
                        (ndarray_T np G)))))"
proof -
  from smooth_succeeds [OF assms] obtain out where
    out: "KalmanSmoother_smooth self np track = Inr out"
    by blast
  note pw = smooth_pointwise [OF out]
  have step: "\<exists>tm p ic.
            KalmanSmoother_transition_model self (track ! k) = Inr (Some tm)
          \<and> KalmanSmoother_prediction (track ! Suc k) = Inr p
          \<and> linalg_inv np (covar p) = Inr ic
          \<and> (let T = matrix np tm (timestamp (track ! Suc k) - timestamp (track ! k));
                  G = matmul np (matmul np (covar (track ! k)) (ndarray_T np T)) ic
              in state_vector (out ! k) =
                   ndarray_add np (state_vector (track ! k))
                     (matmul np G
                        (ndarray_sub np (state_vector (out ! Suc k)) (state_vector p)))
               \<and> covar (out ! k) =
                   ndarray_add np (covar (track ! k))
                     (matmul np
                        (matmul np G (ndarray_sub np (covar (out ! Suc k)) (covar p)))
                        (ndarray_T np G)))"
    if k: "Suc k < length track" for k
  proof -
    from pw k obtain p where
      p: "KalmanSmoother_prediction (track ! Suc k) = Inr p"
      and new: "smooth_else self np (out ! Suc k) p (track ! k) = Inr (out ! k)"
      by blast
    have ts: "timestamp (out ! Suc k) = timestamp (track ! Suc k)"
      using smooth_timestamp [OF out k] .
    from smooth_else_Inr [OF new] p show ?thesis
      unfolding ts Let_def by blast
  qed
  from out pw step show ?thesis by blast
qed

text \<open>The example track meets the three hypotheses; its gain is \<open>1 \<cdot> 2 \<cdot> 1/10\<close>.\<close>

theorem smooth_gain_mean_covar_witness:
  "\<exists>out. KalmanSmoother_smooth example_smoother scalar_ops example_track = Inr out
     \<and> length out = 2
     \<and> state_vector (out ! 0) = 1 + 1 / 5 * (state_vector (out ! 1) - 3)
     \<and> covar (out ! 0) = 1 + 1 / 5 * (covar (out ! 1) - 10) * (1 / 5)"
proof -
  from smooth_gain_mean_covar [OF example_gaussian example_models example_inversions]
  obtain out where
    out: "KalmanSmoother_smooth example_smoother scalar_ops example_track = Inr out"
      "length out = length example_track"
    and step: "\<And>k. Suc k < length example_track \<Longrightarrow>
         (\<exists>tm p ic.
            KalmanSmoother_transition_model example_smoother (example_track ! k)
              = Inr (Some tm)
          \<and> KalmanSmoother_prediction (example_track ! Suc k) = Inr p
          \<and> linalg_inv scalar_ops (covar p) = Inr ic
          \<and> (let T = matrix scalar_ops tm
                        (timestamp (example_track ! Suc k) - timestamp (example_track ! k));
                  G = matmul scalar_ops
                        (matmul scalar_ops (covar (example_track ! k))
                           (ndarray_T scalar_ops T)) ic
              in state_vector (out ! k) =
                   ndarray_add scalar_ops (state_vector (example_track ! k))
                     (matmul scalar_ops G
                        (ndarray_sub scalar_ops (state_vector (out ! Suc k))
                           (state_vector p)))
               \<and> covar (out ! k) =
                   ndarray_add scalar_ops (covar (example_track ! k))
                     (matmul scalar_ops
                        (matmul scalar_ops G
                           (ndarray_sub scalar_ops (covar (out ! Suc k)) (covar p)))
                        (ndarray_T scalar_ops G))))"
    by blast
  have "Suc 0 < length example_track" by (simp add: example_track_def)
  from step [OF this] obtain tm p ic where
    tm: "KalmanSmoother_transition_model example_smoother (example_track ! 0)
           = Inr (Some tm)"
    and p: "KalmanSmoother_prediction (example_track ! Suc 0) = Inr p"
    and ic: "linalg_inv scalar_ops (covar p) = Inr ic"
    and eq: "state_vector (out ! 0) =
        ndarray_add scalar_ops (state_vector (example_track ! 0))
          (matmul scalar_ops
             (matmul scalar_ops
                (matmul scalar_ops (covar (example_track ! 0))
                   (ndarray_T scalar_ops
                      (matrix scalar_ops tm
                         (timestamp (example_track ! Suc 0) - timestamp (example_track ! 0)))))
                ic)
             (ndarray_sub scalar_ops (state_vector (out ! Suc 0)) (state_vector p)))"
      "covar (out ! 0) =
        ndarray_add scalar_ops (covar (example_track ! 0))
          (matmul scalar_ops
             (matmul scalar_ops
                (matmul scalar_ops
                   (matmul scalar_ops (covar (example_track ! 0))
                      (ndarray_T scalar_ops
                         (matrix scalar_ops tm
                            (timestamp (example_track ! Suc 0)
                               - timestamp (example_track ! 0)))))
                   ic)
                (ndarray_sub scalar_ops (covar (out ! Suc 0)) (covar p)))
             (ndarray_T scalar_ops
                (matmul scalar_ops
                   (matmul scalar_ops (covar (example_track ! 0))
                      (ndarray_T scalar_ops
                         (matrix scalar_ops tm
                            (timestamp (example_track ! Suc 0)
                               - timestamp (example_track ! 0)))))
                   ic)))"
    unfolding Let_def by blast
  from tm have tm1: "tm = 1"
    by (simp add: example_track_def KalmanSmoother_transition_model_def)
  from p have p1: "p = GaussianStatePrediction 3 10 1 (Some 2)"
    by (simp add: example_track_def example_update_def)
  from ic have ic1: "ic = 1 / 10"
    unfolding p1 by (simp add: scalar_ops_def)
  have len: "length out = 2"
    using out(2) by (simp add: example_track_def)
  have "state_vector (out ! 0) = 1 + 1 / 5 * (state_vector (out ! 1) - 3)"
    using eq(1) unfolding tm1 p1 ic1
    by (simp add: example_track_def example_update_def scalar_ops_def)
  moreover have "covar (out ! 0) = 1 + 1 / 5 * (covar (out ! 1) - 10) * (1 / 5)"
    using eq(2) unfolding tm1 p1 ic1
    by (simp add: example_track_def example_update_def scalar_ops_def)
  ultimately show ?thesis using out(1) len by blast
qed

text \<open>
  C2, as the code has it. At the backward step over an earlier state \<open>S\<^sub>k\<close> and the later
  state, the transition model whose \<open>matrix(\<Delta>t)\<close> enters the gain is the one attached
  to the prediction associated with the earlier state \<open>S\<^sub>k\<close> itself (\<open>S\<^sub>k\<close> when it is a
  prediction, the prediction of its hypothesis when it is an update) when that
  prediction has one, and otherwise the default \<open>transition_model\<close> of the smoother.
  The prediction associated with the later state supplies the predicted mean and
  covariance only.
\<close>

theorem smooth_uses_model_of_earlier_state:
  assumes "KalmanSmoother_smooth self np track = Inr out"
      and "Suc k < length track"
  shows "\<exists>pk tm p ic.
      KalmanSmoother_prediction (track ! k) = Inr pk
    \<and> (getattr_transition_model pk = Some tm
        \<or> getattr_transition_model pk = None \<and> self_transition_model self = Some tm)
    \<and> KalmanSmoother_prediction (track ! Suc k) = Inr p
    \<and> linalg_inv np (covar p) = Inr ic
    \<and> (let T = matrix np tm (timestamp (track ! Suc k) - timestamp (track ! k));
            G = matmul np (matmul np (covar (track ! k)) (ndarray_T np T)) ic
        in state_vector (out ! k) =
             ndarray_add np (state_vector (track ! k))
               (matmul np G (ndarray_sub np (state_vector (out ! Suc k)) (state_vector p)))
         \<and> covar (out ! k) =
             ndarray_add np (covar (track ! k))
               (matmul np (matmul np G (ndarray_sub np (covar (out ! Suc k)) (covar p)))
                  (ndarray_T np G)))"
proof -
  from smooth_pointwise [OF assms(1)] assms(2) obtain p where
    p: "KalmanSmoother_prediction (track ! Suc k) = Inr p"
    and new: "smooth_else self np (out ! Suc k) p (track ! k) = Inr (out ! k)"
    by blast
  have ts: "timestamp (out ! Suc k) = timestamp (track ! Suc k)"
    using smooth_timestamp [OF assms] .
  from smooth_else_Inr [OF new] obtain tm ic where
    tm: "KalmanSmoother_transition_model self (track ! k) = Inr (Some tm)"
    and rest: "linalg_inv np (covar p) = Inr ic"
      "state_vector (out ! k) =
        ndarray_add np (state_vector (track ! k))
          (matmul np
             (matmul np
                (matmul np (covar (track ! k))
                   (ndarray_T np
                      (matrix np tm (timestamp (track ! Suc k) - timestamp (track ! k)))))
                ic)
             (ndarray_sub np (state_vector (out ! Suc k)) (state_vector p)))"
      "covar (out ! k) =
        ndarray_add np (covar (track ! k))
          (matmul np
             (matmul np
                (matmul np
                   (matmul np (covar (track ! k))
                      (ndarray_T np
                         (matrix np tm (timestamp (track ! Suc k) - timestamp (track ! k)))))
                   ic)
                (ndarray_sub np (covar (out ! Suc k)) (covar p)))
             (ndarray_T np
                (matmul np
                   (matmul np (covar (track ! k))
                      (ndarray_T np
                         (matrix np tm (timestamp (track ! Suc k) - timestamp (track ! k)))))
                   ic)))"
    unfolding ts by blast
  from transition_model_Some [OF tm] p rest show ?thesis
    unfolding Let_def by blast
qed

text \<open>On the example track the model used at the step for the first state is the
  one of rate 1 attached to that state.\<close>

theorem smooth_uses_model_of_earlier_state_witness:
  "\<exists>pk tm p ic.
      KalmanSmoother_prediction (example_track ! 0) = Inr pk
    \<and> (getattr_transition_model pk = Some tm
        \<or> getattr_transition_model pk = None
          \<and> self_transition_model example_smoother = Some tm)
    \<and> KalmanSmoother_prediction (example_track ! 1) = Inr p
    \<and> linalg_inv scalar_ops (covar p) = Inr ic
    \<and> tm = 1 \<and> ic = 1 / 10"
proof -
  have k: "Suc 0 < length example_track" by (simp add: example_track_def)
  from smooth_uses_model_of_earlier_state [OF example_smooth k]
  obtain pk tm p ic where
    h: "KalmanSmoother_prediction (example_track ! 0) = Inr pk"
      "getattr_transition_model pk = Some tm
        \<or> getattr_transition_model pk = None
          \<and> self_transition_model example_smoother = Some tm"
      "KalmanSmoother_prediction (example_track ! Suc 0) = Inr p"
      "linalg_inv scalar_ops (covar p) = Inr ic"
    by blast
  from h(1,2) have "tm = 1"
    by (auto simp: example_track_def example_smoother_def)
  moreover from h(3) have "p = GaussianStatePrediction 3 10 1 (Some 2)"
    by (simp add: example_track_def example_update_def)
  with h(4) have "ic = 1 / 10"
    by (simp add: scalar_ops_def)
  ultimately show ?thesis using h by auto
qed

text \<open>
  C2 as stated fails on the example track. The prediction associated with the later
  state carries the model of rate 2, whose matrix over one time unit is 3; \<open>smooth\<close>
  resolves the model of rate 1 attached to the earlier state, whose matrix is 2, and
  returns the mean \<open>6/5\<close> that this matrix gives, not the \<open>13/10\<close> of the other.
\<close>

theorem smooth_model_not_of_later_prediction:
  "KalmanSmoother_prediction (example_track ! 1) = Inr (GaussianStatePrediction 3 10 1 (Some 2))
   \<and> getattr_transition_model (GaussianStatePrediction 3 10 1 (Some 2) :: (rat, rat) state)
       = Some 2
   \<and> KalmanSmoother_transition_model example_smoother (example_track ! 0) = Inr (Some 1)
   \<and> matrix scalar_ops 1 1 = 2 \<and> matrix scalar_ops 2 1 = 3
   \<and> KalmanSmoother_smooth example_smoother scalar_ops example_track =
       Inr [GaussianStatePrediction (6 / 5) (4 / 5) 0 None, example_update]
   \<and> ndarray_add scalar_ops 1
       (matmul scalar_ops
          (matmul scalar_ops (matmul scalar_ops 1 (ndarray_T scalar_ops (matrix scalar_ops 1 1)))
             (1 / 10))
          (ndarray_sub scalar_ops 4 3)) = 6 / 5
   \<and> ndarray_add scalar_ops 1
       (matmul scalar_ops
          (matmul scalar_ops (matmul scalar_ops 1 (ndarray_T scalar_ops (matrix scalar_ops 2 1)))
             (1 / 10))
          (ndarray_sub scalar_ops 4 3)) = 13 / 10"
  by (simp add: KalmanSmoother_smooth_def smooth_body_def smooth_else_def
        KalmanSmoother_transition_model_def scalar_ops_def example_smoother_def
        example_track_def example_update_def Let_def)

text \<open>
  C3, as the code has it. If for some non-latest state of the track the associated
  prediction has no model attached and the smoother has no default, \<open>smooth\<close> returns
  no track: it raises. No check precedes the recursion; when the backward steps for
  all later states succeed, they are carried out first, and the error is the
  \<open>AttributeError\<close> raised at the step of that state.
\<close>

theorem smooth_unresolved_model_raises:
  assumes "Suc k < length track"
      and "KalmanSmoother_prediction (track ! k) = Inr p"
      and "getattr_transition_model p = None"
      and "self_transition_model self = None"
  shows "(\<exists>e. KalmanSmoother_smooth self np track = Inl e)
    \<and> (\<forall>out'. KalmanSmoother_smooth self np (drop (Suc k) track) = Inr out' \<longrightarrow>
          KalmanSmoother_smooth self np track = Inl AttributeError)"
proof -
  from assms(2-4) have none: "KalmanSmoother_transition_model self (track ! k) = Inr None"
    by (simp add: KalmanSmoother_transition_model_def)
  from assms(1) have ne: "drop (Suc k) track \<noteq> []" by simp
  from assms(1) have dec: "track = take k track @ track ! k # drop (Suc k) track"
    by (simp add: id_take_nth_drop)
  have later: "KalmanSmoother_smooth self np track = Inl AttributeError"
    if "KalmanSmoother_smooth self np (drop (Suc k) track) = Inr out'" for out'
  proof -
    from smooth_Cons_unresolved [OF ne that none]
    have "KalmanSmoother_smooth self np (track ! k # drop (Suc k) track) = Inl AttributeError" .
    from smooth_append_error [OF this, of "take k track"] dec show ?thesis by simp
  qed
  have "\<exists>e. KalmanSmoother_smooth self np track = Inl e"
  proof (cases "KalmanSmoother_smooth self np (drop (Suc k) track)")
    case (Inl e)
    from smooth_append_error [OF this, of "take (Suc k) track"] show ?thesis by simp
  next
    case (Inr out')
    from later [OF this] show ?thesis by blast
  qed
  with later show ?thesis by blast
qed

text \<open>The example track with a first state that resolves no model.\<close>

theorem smooth_unresolved_model_raises_witness:
  "KalmanSmoother_smooth example_smoother scalar_ops (example_unresolved # example_track)
     = Inl AttributeError"
proof -
  have "Suc 0 < length (example_unresolved # example_track)"
    by (simp add: example_track_def)
  moreover have "KalmanSmoother_prediction ((example_unresolved # example_track) ! 0)
      = Inr example_unresolved"
    by (simp add: example_unresolved_def)
  moreover have "getattr_transition_model example_unresolved = None"
    by (simp add: example_unresolved_def)
  moreover have "self_transition_model example_smoother = None"
    by (simp add: example_smoother_def)
  ultimately have "\<forall>out'. KalmanSmoother_smooth example_smoother scalar_ops
        (drop (Suc 0) (example_unresolved # example_track)) = Inr out' \<longrightarrow>
      KalmanSmoother_smooth example_smoother scalar_ops (example_unresolved # example_track)
        = Inl AttributeError"
    using smooth_unresolved_model_raises
      [of 0 "example_unresolved # example_track" example_unresolved example_smoother
          scalar_ops]
    by blast
  then show ?thesis by (simp add: example_smooth)
qed

text \<open>
  C3 as stated fails twice. A track of one state that resolves no model is smoothed
  without error, since the latest state never needs a model. And on the example track
  preceded by such a state the loop has completed the iterations for the two later
  states, with the smoothed state computed, when the iteration for the first state
  raises.
\<close>

theorem smooth_no_model_check_before_recursion:
  "KalmanSmoother_transition_model example_smoother example_unresolved = Inr None
   \<and> KalmanSmoother_smooth example_smoother scalar_ops [example_unresolved]
       = Inr [example_unresolved]
   \<and> smooth_loop example_smoother scalar_ops
       \<lparr>firststate = True, prev_state = None, prediction_var = None, smoothed_track = []\<rparr>
       (rev example_track)
       = Inr \<lparr>firststate = False,
              prev_state = Some (GaussianStatePrediction (6 / 5) (4 / 5) 0 None),
              prediction_var = Some (GaussianStatePrediction 1 1 0 (Some 1)),
              smoothed_track =
                [example_update, GaussianStatePrediction (6 / 5) (4 / 5) 0 None]\<rparr>
   \<and> smooth_body example_smoother scalar_ops
       \<lparr>firststate = False,
        prev_state = Some (GaussianStatePrediction (6 / 5) (4 / 5) 0 None),
        prediction_var = Some (GaussianStatePrediction 1 1 0 (Some 1)),
        smoothed_track =
          [example_update, GaussianStatePrediction (6 / 5) (4 / 5) 0 None]\<rparr>
       example_unresolved
       = Inl AttributeError
   \<and> KalmanSmoother_smooth example_smoother scalar_ops (example_unresolved # example_track)
       = Inl AttributeError"
  by (simp add: KalmanSmoother_smooth_def smooth_body_def smooth_else_def
        KalmanSmoother_transition_model_def scalar_ops_def example_smoother_def
        example_track_def example_update_def example_unresolved_def Let_def)

text \<open>
  C4. On a track of Gaussian predictions and updates on which every non-latest state
  resolves a transition model and every inversion succeeds, \<open>smooth\<close> returns a track
  of the same length, with the same timestamps in the same order, in which every
  element has the kind of the input element at the same position: an update stays an
  update with the same timestamp and the same hypothesis, a prediction stays a
  prediction with the same timestamp; the mean and the covariance are the ones that
  are replaced.
\<close>

theorem smooth_preserves_shape:
  assumes "\<forall>s \<in> set track. isinstance_Update s \<or> isinstance_Prediction s"
      and "\<forall>k. Suc k < length track \<longrightarrow>
             (\<exists>tm. KalmanSmoother_transition_model self (track ! k) = Inr (Some tm))"
      and "\<forall>k p. Suc k < length track \<longrightarrow>
             KalmanSmoother_prediction (track ! Suc k) = Inr p \<longrightarrow>
             (\<exists>ic. linalg_inv np (covar p) = Inr ic)"
  shows "\<exists>out. KalmanSmoother_smooth self np track = Inr out
    \<and> length out = length track
    \<and> map timestamp out = map timestamp track
    \<and> (\<forall>k < length track.
         case track ! k of
           GaussianStatePrediction sv P t tm \<Rightarrow>
             (\<exists>sv' P' tm'. out ! k = GaussianStatePrediction sv' P' t tm')
         | GaussianStateUpdate sv P t h \<Rightarrow>
             (\<exists>sv' P'. out ! k = GaussianStateUpdate sv' P' t h)
         | GaussianState sv P t \<Rightarrow> False)"
proof -
  from smooth_succeeds [OF assms] obtain out where
    out: "KalmanSmoother_smooth self np track = Inr out"
    by blast
  from smooth_pointwise [OF out] have len: "length out = length track"
    by blast
  have "map timestamp out = map timestamp track"
    using len smooth_timestamp [OF out] by (simp add: list_eq_iff_nth_eq)
  with out len smooth_elem [OF out] show ?thesis by blast
qed

text \<open>The example track: a prediction and an update, at times 0 and 1.\<close>

theorem smooth_preserves_shape_witness:
  "\<exists>out. KalmanSmoother_smooth example_smoother scalar_ops example_track = Inr out
     \<and> length out = 2
     \<and> map timestamp out = [0, 1]
     \<and> (\<exists>sv' P' tm'. out ! 0 = GaussianStatePrediction sv' P' 0 tm')
     \<and> (\<exists>sv' P'. out ! 1 =
           GaussianStateUpdate sv' P' 1
             (SingleHypothesis (GaussianStatePrediction 3 10 1 (Some 2)) 4))"
proof -
  from smooth_preserves_shape [OF example_gaussian example_models example_inversions]
  obtain out where
    out: "KalmanSmoother_smooth example_smoother scalar_ops example_track = Inr out"
      "length out = length example_track"
      "map timestamp out = map timestamp example_track"
    and kind: "\<And>k. k < length example_track \<Longrightarrow>
         (case example_track ! k of
           GaussianStatePrediction sv P t tm \<Rightarrow>
             (\<exists>sv' P' tm'. out ! k = GaussianStatePrediction sv' P' t tm')
         | GaussianStateUpdate sv P t h \<Rightarrow>
             (\<exists>sv' P'. out ! k = GaussianStateUpdate sv' P' t h)
         | GaussianState sv P t \<Rightarrow> False)"
    by blast
  have "0 < length example_track" "1 < length example_track"
    by (simp_all add: example_track_def)
  from kind [OF this(1)] kind [OF this(2)] out show ?thesis
    by (simp add: example_track_def example_update_def)
qed



text \<open>
  C6, as the code has it. The step of a non-latest element \<open>S\<^sub>k\<close> performs one matrix
  inversion, that of the covariance of the prediction associated with the later state:
  \<open>smooth\<close> depends on \<open>np.linalg.inv\<close> through its values on these covariances only.
  When the steps for the later states have succeeded and \<open>S\<^sub>k\<close> resolves a model, an
  error raised by that inversion is raised by \<open>smooth\<close>, which returns no track; and an
  inversion that returns is accepted as it is, whatever its result: the step succeeds.
  The smoother has no tolerance of its own.
\<close>

theorem smooth_inverts_prediction_covariance:
  assumes "Suc k < length track"
      and "KalmanSmoother_smooth self np (drop (Suc k) track) = Inr out'"
      and "KalmanSmoother_transition_model self (track ! k) = Inr (Some tm)"
      and "KalmanSmoother_prediction (track ! Suc k) = Inr p"
  shows "(\<forall>e. linalg_inv np (covar p) = Inl e \<longrightarrow>
            KalmanSmoother_smooth self np track = Inl e)
    \<and> (\<forall>ic. linalg_inv np (covar p) = Inr ic \<longrightarrow>
            (\<exists>new. KalmanSmoother_smooth self np (drop k track) = Inr (new # out')))
    \<and> (\<forall>f g. (\<forall>j q. Suc j < length track \<longrightarrow>
                  KalmanSmoother_prediction (track ! Suc j) = Inr q \<longrightarrow>
                  f (covar q) = g (covar q)) \<longrightarrow>
            KalmanSmoother_smooth self (np\<lparr>linalg_inv := f\<rparr>) track
              = KalmanSmoother_smooth self (np\<lparr>linalg_inv := g\<rparr>) track)"
proof (intro conjI allI impI)
  fix e assume "linalg_inv np (covar p) = Inl e"
  with assms show "KalmanSmoother_smooth self np track = Inl e"
    by (rule smooth_inversion_error)
next
  fix ic assume "linalg_inv np (covar p) = Inr ic"
  with assms show "\<exists>new. KalmanSmoother_smooth self np (drop k track) = Inr (new # out')"
    by (rule smooth_inversion_accepted)
next
  fix f g :: "'a \<Rightarrow> error + 'a"
  assume "\<forall>j q. Suc j < length track \<longrightarrow>
      KalmanSmoother_prediction (track ! Suc j) = Inr q \<longrightarrow> f (covar q) = g (covar q)"
  then show "KalmanSmoother_smooth self (np\<lparr>linalg_inv := f\<rparr>) track
      = KalmanSmoother_smooth self (np\<lparr>linalg_inv := g\<rparr>) track"
    by (rule smooth_inv_cong)
qed

text \<open>On the track with the singular covariance the inversion raises \<open>LinAlgError\<close>,
  and so does \<open>smooth\<close>.\<close>

theorem smooth_inverts_prediction_covariance_witness:
  "KalmanSmoother_smooth example_smoother scalar_ops example_singular = Inl LinAlgError"
proof -
  have k: "Suc 0 < length example_singular" by (simp add: example_singular_def)
  have later: "KalmanSmoother_smooth example_smoother scalar_ops
        (drop (Suc 0) example_singular)
      = Inr [GaussianStateUpdate 4 0 1
               (SingleHypothesis (GaussianStatePrediction 3 0 1 (Some 2)) 4)]"
    by (simp add: example_singular_def smooth_single)
  have tm: "KalmanSmoother_transition_model example_smoother (example_singular ! 0)
      = Inr (Some 1)"
    by (simp add: example_singular_def KalmanSmoother_transition_model_def)
  have p: "KalmanSmoother_prediction (example_singular ! Suc 0)
      = Inr (GaussianStatePrediction 3 0 1 (Some 2))"
    by (simp add: example_singular_def)
  have "linalg_inv scalar_ops (covar (GaussianStatePrediction 3 0 1 (Some 2) :: (rat, rat) state))
      = Inl LinAlgError"
    by (simp add: scalar_ops_def)
  with smooth_inverts_prediction_covariance [OF k later tm p] show ?thesis by blast
qed

text \<open>
  C6 as stated fails where it speaks of a tolerance. On the track whose later
  prediction has the covariance \<open>10\<^sup>-\<^sup>3\<^sup>0\<close>, singular beyond any tolerance one would
  configure, the inversion returns \<open>10\<^sup>3\<^sup>0\<close> and \<open>smooth\<close> returns a track as on any
  other input, with a mean of \<open>1 + 2 \<cdot> 10\<^sup>3\<^sup>0\<close> and a negative covariance.
\<close>

theorem smooth_nearly_singular_succeeds:
  "KalmanSmoother_prediction (example_nearly_singular ! 1)
     = Inr (GaussianStatePrediction 3 (1 / 10 ^ 30) 1 (Some 2))
   \<and> linalg_inv scalar_ops (1 / 10 ^ 30) = Inr (10 ^ 30)
   \<and> KalmanSmoother_smooth example_smoother scalar_ops example_nearly_singular =
       Inr [GaussianStatePrediction (1 + 2 * 10 ^ 30) (1 - 2 * 10 ^ 30) 0 None,
            GaussianStateUpdate 4 (1 / (2 * 10 ^ 30)) 1
              (SingleHypothesis (GaussianStatePrediction 3 (1 / 10 ^ 30) 1 (Some 2)) 4)]"
  by (simp add: KalmanSmoother_smooth_def smooth_body_def smooth_else_def
        KalmanSmoother_transition_model_def scalar_ops_def example_smoother_def
        example_nearly_singular_def Let_def)

subsection \<open>The other methods\<close>

text \<open>
  C9. For all arguments, \<open>track_smooth\<close> of a \<open>KalmanSmoother\<close>, and the inherited one of
  an \<open>ExtendedKalmanSmoother\<close>, returns \<open>None\<close>, whatever the smoother and the positional
  and keyword arguments.
\<close>

theorem track_smooth_returns_None:
  "KalmanSmoother_track_smooth self args kwargs = None
   \<and> track_smooth (self\<lparr>cls := KalmanSmoother\<rparr>) args kwargs = None
   \<and> track_smooth (self\<lparr>cls := ExtendedKalmanSmoother\<rparr>) args kwargs = None"
  by (simp add: KalmanSmoother_track_smooth_def)

text \<open>
  C7. \<open>ExtendedKalmanSmoother\<close> inherits \<open>smooth\<close> unchanged: on every track, with the
  same configured transition model and the same operations, an
  \<open>ExtendedKalmanSmoother\<close> and a \<open>KalmanSmoother\<close> return the same result (the same
  track or the same error), which is that of \<open>KalmanSmoother.smooth\<close>. The recursion
  is parametric in the type of transition models and so cannot branch on it.
\<close>

theorem extended_smooth_same_recursion:
  "smooth (self\<lparr>cls := ExtendedKalmanSmoother\<rparr>) np track
     = smooth (self\<lparr>cls := KalmanSmoother\<rparr>) np track
   \<and> smooth (self\<lparr>cls := ExtendedKalmanSmoother\<rparr>) np track
     = KalmanSmoother_smooth (self\<lparr>cls := ExtendedKalmanSmoother\<rparr>) np track
   \<and> KalmanSmoother_smooth (self\<lparr>cls := ExtendedKalmanSmoother\<rparr>) np track
     = KalmanSmoother_smooth (self\<lparr>cls := KalmanSmoother\<rparr>) np track"
  by (simp add: KalmanSmoother_smooth_def smooth_loop_cls)

end
